theory Spec2Isabelle
  imports Main "HOL-Library.Word"
begin

section \<open>Text written by the formatting verbs\<close>

text \<open>
  The program is one Go function, \<^verbatim>\<open>main\<close>, that reads three environment variables,
  logs in to a vSphere endpoint and prints three tables. Its text output is built with
  \<^verbatim>\<open>fmt.Printf\<close>, \<^verbatim>\<open>fmt.Println\<close> and \<^verbatim>\<open>fmt.Fprintf\<close>; the verbs it uses are
  \<^verbatim>\<open>%s\<close> (the string itself, or the message of an error) and \<^verbatim>\<open>%d\<close> (a signed
  decimal numeral).
\<close>

definition NL :: string where
  "NL = [CHR 0x0A]"

definition TAB :: string where
  "TAB = [CHR 0x09]"

fun string_of_nat :: "nat \<Rightarrow> string" where
  "string_of_nat n =
     (if n < 10 then [''0123456789'' ! n]
      else string_of_nat (n div 10) @ [''0123456789'' ! (n mod 10)])"

declare string_of_nat.simps [simp del]

text \<open>The verb \<^verbatim>\<open>%d\<close>: a minus sign for a negative value, then the decimal digits.\<close>

definition fmt_d :: "int \<Rightarrow> string" where
  "fmt_d i = (if i < 0 then ''-'' @ string_of_nat (nat (- i)) else string_of_nat (nat i))"

section \<open>The objects retrieved from the endpoint\<close>

text \<open>
  The managed-object types come from the govmomi library (\<^verbatim>\<open>vim25/types\<close>,
  \<^verbatim>\<open>vim25/mo\<close>); only the fields \<^verbatim>\<open>main\<close> reads are kept, under the path by which
  it reads them. The integer widths are those of the library's declarations:
  \<^verbatim>\<open>CpuMhz int32\<close>, \<^verbatim>\<open>NumCpuCores int16\<close>, \<^verbatim>\<open>MemorySize int64\<close>,
  \<^verbatim>\<open>OverallCpuUsage int32\<close>, \<^verbatim>\<open>OverallMemoryUsage int32\<close>, \<^verbatim>\<open>Capacity int64\<close>,
  \<^verbatim>\<open>FreeSpace int64\<close>. The field \<^verbatim>\<open>Hardware\<close> of a host summary is a pointer there
  (\<^verbatim>\<open>*HostHardwareSummary\<close>), and \<^verbatim>\<open>main\<close> reads through it without a nil check.
\<close>

type_synonym int16 = "16 word"
type_synonym int32 = "32 word"
type_synonym int64 = "64 word"

record HostHardwareSummary =
  MemorySize :: int64
  CpuMhz :: int32
  NumCpuCores :: int16

record HostListSummaryQuickStats =
  OverallCpuUsage :: int32
  OverallMemoryUsage :: int32

record HostSystem =
  Summary_Config_Name :: string
  Summary_Hardware :: "HostHardwareSummary option"
  Summary_QuickStats :: HostListSummaryQuickStats

record Datastore =
  Summary_Name :: string
  Summary_Type :: string
  Summary_Capacity :: int64
  Summary_FreeSpace :: int64

record VirtualMachine =
  Config_Name :: string
  Config_GuestFullName :: string

section \<open>The derived host metrics (lines 174 to 176)\<close>

text \<open>
  Every operand is converted to \<^verbatim>\<open>int64\<close> before the arithmetic, as the source writes
  it: \<^verbatim>\<open>int64(x)\<close> of a narrower signed integer is sign extension (\<^const>\<open>scast\<close>), and
  \<^verbatim>\<open>int64\<close> arithmetic wraps around modulo \<open>2 ^ 64\<close>.
\<close>

definition totalCPU :: "HostHardwareSummary \<Rightarrow> int64" where
  "totalCPU hw = scast (CpuMhz hw) * scast (NumCpuCores hw)"

definition freeCPU :: "HostHardwareSummary \<Rightarrow> HostListSummaryQuickStats \<Rightarrow> int64" where
  "freeCPU hw qs = totalCPU hw - scast (OverallCpuUsage qs)"

definition freeMemory :: "HostHardwareSummary \<Rightarrow> HostListSummaryQuickStats \<Rightarrow> int64" where
  "freeMemory hw qs = MemorySize hw - (scast (OverallMemoryUsage qs) * 1024 * 1024)"

section \<open>The rows of the three tables\<close>

text \<open>
  \<^verbatim>\<open>units.ByteSize\<close> is an \<^verbatim>\<open>int64\<close> whose \<^verbatim>\<open>String\<close> method lives in the govmomi
  library; the rows take that method as the parameter \<open>bs\<close>. One row is the text the
  body of the \<^verbatim>\<open>for\<close> loop writes to the tabular writer: every cell is followed by a
  tab, the row by a newline.
\<close>

definition host_row :: "(int64 \<Rightarrow> string) \<Rightarrow> HostSystem \<Rightarrow> HostHardwareSummary \<Rightarrow> string" where
  "host_row bs hs hw =
     Summary_Config_Name hs @ TAB
     @ fmt_d (sint (OverallCpuUsage (Summary_QuickStats hs))) @ TAB
     @ fmt_d (sint (totalCPU hw)) @ TAB
     @ fmt_d (sint (freeCPU hw (Summary_QuickStats hs))) @ TAB
     @ bs (scast (OverallMemoryUsage (Summary_QuickStats hs)) * 1024 * 1024) @ TAB
     @ bs (MemorySize hw) @ TAB
     @ fmt_d (sint (freeMemory hw (Summary_QuickStats hs))) @ TAB
     @ NL"

text \<open>
  The host loop. A host whose \<^verbatim>\<open>Summary.Hardware\<close> is nil makes the first read of the
  body panic; the rows written before it stay in the writer's buffer and are never
  flushed. \<open>None\<close> is that panic.
\<close>

primrec host_loop :: "(int64 \<Rightarrow> string) \<Rightarrow> HostSystem list \<Rightarrow> string option" where
  "host_loop bs [] = Some []"
| "host_loop bs (hs # hss) =
     (case Summary_Hardware hs of
        None \<Rightarrow> None
      | Some hw \<Rightarrow>
          (case host_loop bs hss of
             None \<Rightarrow> None
           | Some rows \<Rightarrow> Some (host_row bs hs hw @ rows)))"

definition datastore_row :: "(int64 \<Rightarrow> string) \<Rightarrow> Datastore \<Rightarrow> string" where
  "datastore_row bs ds =
     Summary_Name ds @ TAB
     @ Summary_Type ds @ TAB
     @ bs (Summary_Capacity ds) @ TAB
     @ bs (Summary_FreeSpace ds) @ TAB
     @ NL"

primrec datastore_loop :: "(int64 \<Rightarrow> string) \<Rightarrow> Datastore list \<Rightarrow> string" where
  "datastore_loop bs [] = []"
| "datastore_loop bs (ds # dss) = datastore_row bs ds @ datastore_loop bs dss"

definition vm_row :: "VirtualMachine \<Rightarrow> string" where
  "vm_row vm = Config_Name vm @ '':'' @ TAB @ Config_GuestFullName vm @ TAB @ NL"

primrec vm_loop :: "VirtualMachine list \<Rightarrow> string" where
  "vm_loop [] = []"
| "vm_loop (vm # vms) = vm_row vm @ vm_loop vms"

definition host_header :: string where
  "host_header =
     ''Name:'' @ TAB @ ''Used CPU:'' @ TAB @ ''Total CPU:'' @ TAB @ ''Free CPU:'' @ TAB
     @ ''Used Memory:'' @ TAB @ ''Total Memory:'' @ TAB @ ''Free Memory:'' @ TAB @ NL"

definition datastore_header :: string where
  "datastore_header =
     ''Name:'' @ TAB @ ''Type:'' @ TAB @ ''Capacity:'' @ TAB @ ''Free:'' @ NL"

definition vm_header :: string where
  "vm_header = ''Name:'' @ TAB @ ''Guest Full Name:'' @ TAB @ NL"

section \<open>The run of \<^verbatim>\<open>main\<close>\<close>

text \<open>
  An error is its message (what \<^verbatim>\<open>%s\<close>, \<^verbatim>\<open>%v\<close> and \<^verbatim>\<open>Println\<close> print of it).
  A URL keeps the text it was parsed from and its user information.
\<close>

type_synonym error = string

record URL =
  raw :: string
  User :: "(string \<times> string) option"

record Session =
  URL :: URL
  Insecure :: bool

datatype kind = KHostSystem | KDatastore | KVirtualMachine

text \<open>
  What a run does, in order: bytes written to standard output by \<^verbatim>\<open>fmt\<close>
  (\<open>Stdout\<close>), a tabular writer flushing its buffered text to standard output
  (\<open>Flush\<close>, with the text as it was written to the writer, before alignment), and the
  calls to the endpoint with their results (\<open>None\<close>: no error). \<open>Cancel\<close> is the
  deferred \<^verbatim>\<open>cancel()\<close> of the shared context.
\<close>

datatype event =
    Stdout string
  | Flush string
  | Login Session "error option"
  | CreateContainerView kind "error option"
  | Retrieve kind "error option"
  | Destroy kind
  | Cancel

datatype exit = Returned | Panicked

text \<open>
  The surroundings of one run: the three environment variables (\<^verbatim>\<open>os.Getenv\<close> gives
  the empty string for an unset one), the library's \<^verbatim>\<open>soap.ParseURL\<close> (a URL or nil,
  and an error or nil), the results of the login, of the three view creations and of the
  three retrievals, and the library's \<^verbatim>\<open>ByteSize.String\<close>.
\<close>

record world =
  GOVMOMI_URL :: string
  GOVMOMI_USERNAME :: string
  GOVMOMI_PASSWORD :: string
  ParseURL :: "string \<Rightarrow> URL option \<times> error option"
  Login_result :: "error option"
  CreateContainerView_result :: "kind \<Rightarrow> error option"
  Retrieve_HostSystem :: "error + HostSystem list"
  Retrieve_Datastore :: "error + Datastore list"
  Retrieve_VirtualMachine :: "error + VirtualMachine list"
  ByteSize_String :: "int64 \<Rightarrow> string"

type_synonym run = "event list \<times> exit"

definition emit :: "event list \<Rightarrow> run \<Rightarrow> run" where
  "emit es r = (es @ fst r, snd r)"

text \<open>
  Leaving \<^verbatim>\<open>main\<close>, by \<^verbatim>\<open>return\<close> or by a panic, runs the deferred calls, last
  deferred first; \<open>deferred\<close> lists them in that order.
\<close>

definition return_deferred :: "event list \<Rightarrow> run" where
  "return_deferred deferred = (deferred, Returned)"

definition panic_deferred :: "event list \<Rightarrow> run" where
  "panic_deferred deferred = (deferred, Panicked)"

text \<open>Lines 240 to 277: the virtual machines.\<close>

definition main_vms :: "world \<Rightarrow> event list \<Rightarrow> run" where
  "main_vms w deferred =
     (case CreateContainerView_result w KVirtualMachine of
        Some err \<Rightarrow>
          emit [CreateContainerView KVirtualMachine (Some err),
                Stdout (''Unable to create Virtual Machine Container View: error '' @ err)]
            (return_deferred deferred)
      | None \<Rightarrow>
          emit [CreateContainerView KVirtualMachine None]
            (let deferred = Destroy KVirtualMachine # deferred in
             case Retrieve_VirtualMachine w of
               Inl err \<Rightarrow>
                 emit [Retrieve KVirtualMachine (Some err),
                       Stdout (''Unable to retrieve VM information: error '' @ err)]
                   (return_deferred deferred)
             | Inr vms \<Rightarrow>
                 emit [Retrieve KVirtualMachine None,
                       Stdout (NL @ ''*** VM Information ***'' @ NL),
                       Stdout (''-----------------------'' @ NL @ NL),
                       Flush (vm_header @ vm_loop vms @ NL)]
                   (return_deferred deferred)))"

text \<open>Lines 193 to 232: the datastores.\<close>

definition main_datastores :: "world \<Rightarrow> event list \<Rightarrow> run" where
  "main_datastores w deferred =
     (case CreateContainerView_result w KDatastore of
        Some err \<Rightarrow>
          emit [CreateContainerView KDatastore (Some err),
                Stdout (''Unable to create Datastore Container View: error '' @ err)]
            (return_deferred deferred)
      | None \<Rightarrow>
          emit [CreateContainerView KDatastore None]
            (let deferred = Destroy KDatastore # deferred in
             case Retrieve_Datastore w of
               Inl err \<Rightarrow>
                 emit [Retrieve KDatastore (Some err),
                       Stdout (''Unable to retrieve Datastore information: error '' @ err)]
                   (return_deferred deferred)
             | Inr dss \<Rightarrow>
                 emit [Retrieve KDatastore None,
                       Stdout (NL @ ''*** Datastore Information ***'' @ NL),
                       Stdout (''------------------------------'' @ NL @ NL),
                       Flush (datastore_header @ datastore_loop (ByteSize_String w) dss)]
                   (main_vms w deferred)))"

text \<open>Lines 141 to 187: the hosts.\<close>

definition main_hosts :: "world \<Rightarrow> event list \<Rightarrow> run" where
  "main_hosts w deferred =
     (case CreateContainerView_result w KHostSystem of
        Some err \<Rightarrow>
          emit [CreateContainerView KHostSystem (Some err),
                Stdout (''Unable to create Host Container View: error '' @ err)]
            (return_deferred deferred)
      | None \<Rightarrow>
          emit [CreateContainerView KHostSystem None]
            (let deferred = Destroy KHostSystem # deferred in
             case Retrieve_HostSystem w of
               Inl err \<Rightarrow>
                 emit [Retrieve KHostSystem (Some err),
                       Stdout (''Unable to retrieve Host information: error '' @ err)]
                   (return_deferred deferred)
             | Inr hss \<Rightarrow>
                 emit [Retrieve KHostSystem None,
                       Stdout (NL @ ''*** Host Information ***'' @ NL),
                       Stdout (''------------------------'' @ NL @ NL)]
                   (case host_loop (ByteSize_String w) hss of
                      None \<Rightarrow> panic_deferred deferred
                    | Some rows \<Rightarrow>
                        emit [Flush (host_header @ rows)] (main_datastores w deferred))))"

text \<open>
  Lines 72 to 135. After a nil URL the source prints a line and goes on; it returns only
  on a non-nil error. With a nil URL and a nil error, the assignment to \<^verbatim>\<open>u.User\<close> at
  line 105 dereferences nil and panics.
\<close>

definition main :: "world \<Rightarrow> run" where
  "main w =
     (let vc = GOVMOMI_URL w;
          user = GOVMOMI_USERNAME w;
          pwd = GOVMOMI_PASSWORD w
      in emit [Stdout (''DEBUG: vc is '' @ vc @ NL),
               Stdout (''DEBUG: user is '' @ user @ NL),
               Stdout (''DEBUG: password is '' @ pwd @ NL)]
           (let deferred = [Cancel] in
            case ParseURL w vc of
              (u, err) \<Rightarrow>
                emit (if u = None
                      then [Stdout (''could not parse URL (environment variables set?)'' @ NL)]
                      else [])
                  (case err of
                     Some e \<Rightarrow>
                       emit [Stdout (''URL parsing not successful, error %v '' @ e @ NL)]
                         (return_deferred deferred)
                   | None \<Rightarrow>
                       (case u of
                          None \<Rightarrow> panic_deferred deferred
                        | Some u0 \<Rightarrow>
                            (let u1 = u0\<lparr>User := Some (user, pwd)\<rparr>;
                                 s = \<lparr>URL = u1, Insecure = True\<rparr>
                             in case Login_result w of
                                  Some e \<Rightarrow>
                                    emit [Login s (Some e),
                                          Stdout (''Log in not successful- could not get vCenter client: %v ''
                                                  @ e @ NL)]
                                      (return_deferred deferred)
                                | None \<Rightarrow>
                                    emit [Login s None, Stdout (''Log in successful'' @ NL)]
                                      (main_hosts w deferred))))))"

section \<open>Reading a run\<close>



fun is_output :: "event \<Rightarrow> bool" where
  "is_output (Stdout s) = True"
| "is_output (Flush b) = True"
| "is_output (Login s r) = False"
| "is_output (CreateContainerView k r) = False"
| "is_output (Retrieve k r) = False"
| "is_output (Destroy k) = False"
| "is_output Cancel = False"

text \<open>The steps of the per-kind pipeline: open scope, fetch, render, close scope.\<close>

fun is_pipeline_step :: "event \<Rightarrow> bool" where
  "is_pipeline_step (Stdout s) = False"
| "is_pipeline_step (Flush b) = True"
| "is_pipeline_step (Login s r) = False"
| "is_pipeline_step (CreateContainerView k r) = True"
| "is_pipeline_step (Retrieve k r) = True"
| "is_pipeline_step (Destroy k) = True"
| "is_pipeline_step Cancel = False"

text \<open>Opening and closing a scope.\<close>

fun is_scope_step :: "event \<Rightarrow> bool" where
  "is_scope_step (CreateContainerView k r) = True"
| "is_scope_step (Destroy k) = True"
| "is_scope_step (Stdout s) = False"
| "is_scope_step (Flush b) = False"
| "is_scope_step (Login s r) = False"
| "is_scope_step (Retrieve k r) = False"
| "is_scope_step Cancel = False"

text \<open>A call to the endpoint that came back with an error.\<close>

fun failed :: "event \<Rightarrow> bool" where
  "failed (Login s (Some e)) = True"
| "failed (CreateContainerView k (Some e)) = True"
| "failed (Retrieve k (Some e)) = True"
| "failed (Stdout s) = False"
| "failed (Flush b) = False"
| "failed (Login s None) = False"
| "failed (CreateContainerView k None) = False"
| "failed (Retrieve k None) = False"
| "failed (Destroy k) = False"
| "failed Cancel = False"

text \<open>The deferred calls: releasing a view, cancelling the context.\<close>

fun is_cleanup :: "event \<Rightarrow> bool" where
  "is_cleanup (Destroy k) = True"
| "is_cleanup Cancel = True"
| "is_cleanup (Stdout s) = False"
| "is_cleanup (Flush b) = False"
| "is_cleanup (Login s r) = False"
| "is_cleanup (CreateContainerView k r) = False"
| "is_cleanup (Retrieve k r) = False"

text \<open>
  A trace stops at its first failed call when that call is followed by one print of
  some text and then by deferred calls only.
\<close>

fun stops_at_failure :: "event list \<Rightarrow> bool" where
  "stops_at_failure [] = True"
| "stops_at_failure (e # es) =
     (if failed e
      then (case es of
              Stdout d # rest \<Rightarrow> d \<noteq> [] \<and> list_all is_cleanup rest
            | _ \<Rightarrow> False)
      else stops_at_failure es)"

text \<open>
  The scope of kind \<open>k\<close> along a trace, from the state \<open>opened\<close>: it is opened only
  when closed, released only when open, and not left open at the end.
\<close>

fun scope_released :: "kind \<Rightarrow> bool \<Rightarrow> event list \<Rightarrow> bool" where
  "scope_released k opened [] = (\<not> opened)"
| "scope_released k opened (e # es) =
     (if e = CreateContainerView k None then \<not> opened \<and> scope_released k True es
      else if e = Destroy k then opened \<and> scope_released k False es
      else scope_released k opened es)"

text \<open>
  The largest number of scopes open at one time along a trace that starts with \<open>n\<close>
  of them open.
\<close>

fun max_open :: "nat \<Rightarrow> event list \<Rightarrow> nat" where
  "max_open n [] = n"
| "max_open n (e # es) =
     max n (max_open (case e of
                        CreateContainerView k None \<Rightarrow> Suc n
                      | Destroy k \<Rightarrow> n - 1
                      | _ \<Rightarrow> n) es)"

section \<open>Byte sizes in scaled units\<close>

text \<open>
  Modelled from the spec: the \<^verbatim>\<open>String\<close> method of govmomi's \<^verbatim>\<open>units.ByteSize\<close>,
  which \<^verbatim>\<open>main\<close> calls through the verb \<^verbatim>\<open>%s\<close> and whose code is not part of this
  repository. The spec describes it as a unit-scaled form derived by repeated division
  by 1024, selecting the largest unit where the value is at least 1, and gives the
  renderings \<open>0B\<close>, \<open>1.00GB\<close>, \<open>32.00GB\<close>, \<open>512.00GB\<close> and \<open>1.00TB\<close>: a plain
  count of bytes below 1024 (and for a negative value, which no unit brings to 1 or
  more), two decimals otherwise. The spec shows exact quotients only; the model rounds
  an inexact one to the nearest hundredth, a half upwards.
\<close>

definition unit_names :: "string list" where
  "unit_names = [''B'', ''KB'', ''MB'', ''GB'', ''TB'', ''PB'', ''EB'']"

text \<open>
  The number of divisions by 1024 that keep the value at 1 or more, at most \<open>n\<close> of
  them (six units lie above the byte).
\<close>

fun scale_steps :: "nat \<Rightarrow> int \<Rightarrow> nat" where
  "scale_steps 0 v = 0"
| "scale_steps (Suc n) v = (if 1024 \<le> v then Suc (scale_steps n (v div 1024)) else 0)"

definition unit_index :: "int \<Rightarrow> nat" where
  "unit_index v = scale_steps 6 v"

definition two_digits :: "nat \<Rightarrow> string" where
  "two_digits n = [''0123456789'' ! (n div 10), ''0123456789'' ! (n mod 10)]"

definition ByteSize_spec :: "int \<Rightarrow> string" where
  "ByteSize_spec v =
     (let k = unit_index v in
      if k = 0 then fmt_d v @ ''B''
      else
        (let h = nat ((v * 200 + 1024 ^ k) div (2 * 1024 ^ k))
         in string_of_nat (h div 100) @ ''.'' @ two_digits (h mod 100) @ unit_names ! k))"

definition ByteSize_String_spec :: "int64 \<Rightarrow> string" where
  "ByteSize_String_spec b = ByteSize_spec (sint b)"

section \<open>Example runs\<close>

text \<open>An over-subscribed host: 2 cores of 2000 MHz with 5000 MHz in use, 4 GiB with 8 GiB in use.\<close>

definition oversubscribed_hw :: HostHardwareSummary where
  "oversubscribed_hw = \<lparr>MemorySize = 4294967296, CpuMhz = 2000, NumCpuCores = 2\<rparr>"

definition oversubscribed_qs :: HostListSummaryQuickStats where
  "oversubscribed_qs = \<lparr>OverallCpuUsage = 5000, OverallMemoryUsage = 8192\<rparr>"

definition oversubscribed_hs :: HostSystem where
  "oversubscribed_hs =
     \<lparr>Summary_Config_Name = ''esx01'', Summary_Hardware = Some oversubscribed_hw,
      Summary_QuickStats = oversubscribed_qs\<rparr>"

text \<open>The host and the storage volume of the spec's end-to-end scenarios, and one virtual machine.\<close>

definition esx01_hw :: HostHardwareSummary where
  "esx01_hw = \<lparr>MemorySize = 34359738368, CpuMhz = 2500, NumCpuCores = 4\<rparr>"

definition esx01 :: HostSystem where
  "esx01 =
     \<lparr>Summary_Config_Name = ''esx01'', Summary_Hardware = Some esx01_hw,
      Summary_QuickStats = \<lparr>OverallCpuUsage = 3000, OverallMemoryUsage = 8192\<rparr>\<rparr>"

definition datastore1 :: Datastore where
  "datastore1 =
     \<lparr>Summary_Name = ''ds1'', Summary_Type = ''VMFS'',
      Summary_Capacity = 1099511627776, Summary_FreeSpace = 549755813888\<rparr>"

definition vm1 :: VirtualMachine where
  "vm1 = \<lparr>Config_Name = ''vm1'', Config_GuestFullName = ''Linux''\<rparr>"

text \<open>
  A run in which every call succeeds. Its \<open>ParseURL\<close> gives nil and no error for the
  empty string, and a URL for any other text.
\<close>

definition reference_world :: world where
  "reference_world =
     \<lparr>GOVMOMI_URL = ''vc'', GOVMOMI_USERNAME = ''root'', GOVMOMI_PASSWORD = ''pw'',
      ParseURL = (\<lambda>s. if s = [] then (None, None) else (Some \<lparr>raw = s, User = None\<rparr>, None)),
      Login_result = None,
      CreateContainerView_result = (\<lambda>k. None),
      Retrieve_HostSystem = Inr [esx01],
      Retrieve_Datastore = Inr [datastore1],
      Retrieve_VirtualMachine = Inr [vm1],
      ByteSize_String = ByteSize_String_spec\<rparr>"

text \<open>The same run with the retrieval of the datastores failing, and with no endpoint URL set.\<close>

definition retrieval_fails :: world where
  "retrieval_fails = reference_world\<lparr>Retrieve_Datastore := Inl ''denied''\<rparr>"

definition no_url :: world where
  "no_url = reference_world\<lparr>GOVMOMI_URL := []\<rparr>"

text \<open>The session the reference run logs in with.\<close>

definition reference_session :: Session where
  "reference_session = \<lparr>URL = \<lparr>raw = ''vc'', User = Some (''root'', ''pw'')\<rparr>, Insecure = True\<rparr>"

section \<open>The host metrics are exact\<close>


lemma sint_scast_32_64: "sint (scast (x :: 32 word) :: 64 word) = sint x"
  by (rule sint_up_scast) (simp add: is_up)

lemma sint_scast_16_64: "sint (scast (x :: 16 word) :: 64 word) = sint x"
  by (rule sint_up_scast) (simp add: is_up)

lemma sint_32_range: "- 2147483648 \<le> sint (x :: 32 word) \<and> sint x < 2147483648"
  using sint_ge [of x] sint_lt [of x] by simp

lemma sint_16_range: "- 32768 \<le> sint (x :: 16 word) \<and> sint x < 32768"
  using sint_ge [of x] sint_lt [of x] by simp

lemma sint_64_range: "- 9223372036854775808 \<le> sint (x :: 64 word) \<and> sint x < 9223372036854775808"
  using sint_ge [of x] sint_lt [of x] by simp

lemma abs_mult_bound:
  fixes a b :: int
  assumes "\<bar>a\<bar> \<le> A" "\<bar>b\<bar> \<le> B"
  shows "\<bar>a * b\<bar> \<le> A * B"
proof -
  have "\<bar>a * b\<bar> = \<bar>a\<bar> * \<bar>b\<bar>" by (simp add: abs_mult)
  also have "\<dots> \<le> A * B" using assms by (intro mult_mono) auto
  finally show ?thesis .
qed

lemma clock_cores_range:
  "\<bar>sint (c :: 32 word) * sint (n :: 16 word)\<bar> \<le> 70368744177664"
proof -
  have "\<bar>sint c\<bar> \<le> 2147483648" using sint_32_range [of c] by linarith
  moreover have "\<bar>sint n\<bar> \<le> 32768" using sint_16_range [of n] by linarith
  ultimately have "\<bar>sint c * sint n\<bar> \<le> 2147483648 * 32768" by (rule abs_mult_bound)
  then show ?thesis by simp
qed

lemma sint_totalCPU: "sint (totalCPU hw) = sint (CpuMhz hw) * sint (NumCpuCores hw)"
proof -
  have "\<bar>sint (CpuMhz hw) * sint (NumCpuCores hw)\<bar> \<le> 70368744177664"
    by (rule clock_cores_range)
  then have "signed_take_bit 63 (sint (CpuMhz hw) * sint (NumCpuCores hw))
               = sint (CpuMhz hw) * sint (NumCpuCores hw)"
    by (intro signed_take_bit_int_eq_self) auto
  then show ?thesis
    by (simp add: totalCPU_def sint_word_mult sint_scast_32_64 sint_scast_16_64)
qed

lemma sint_freeCPU:
  "sint (freeCPU hw qs) = sint (CpuMhz hw) * sint (NumCpuCores hw) - sint (OverallCpuUsage qs)"
proof -
  have "\<bar>sint (CpuMhz hw) * sint (NumCpuCores hw)\<bar> \<le> 70368744177664"
    by (rule clock_cores_range)
  moreover note sint_32_range [of "OverallCpuUsage qs"]
  ultimately have "signed_take_bit 63 (sint (CpuMhz hw) * sint (NumCpuCores hw) - sint (OverallCpuUsage qs))
               = sint (CpuMhz hw) * sint (NumCpuCores hw) - sint (OverallCpuUsage qs)"
    by (intro signed_take_bit_int_eq_self) auto
  then show ?thesis
    by (simp add: freeCPU_def sint_word_diff sint_totalCPU sint_scast_32_64)
qed

lemma sint_used_bytes:
  "sint (scast (u :: 32 word) * 1024 * 1024 :: 64 word) = sint u * 1048576"
proof -
  have r: "- 2147483648 \<le> sint u \<and> sint u < 2147483648" by (rule sint_32_range)
  have m: "sint (1048576 :: 64 word) = 1048576" by simp
  have "scast u * 1024 * 1024 = (scast u :: 64 word) * 1048576" by simp
  then have "sint (scast u * 1024 * 1024 :: 64 word) = sint ((scast u :: 64 word) * 1048576)"
    by (rule arg_cong)
  also have "\<dots> = signed_take_bit 63 (sint u * 1048576)"
    unfolding sint_word_mult sint_scast_32_64 m by simp
  also have "\<dots> = sint u * 1048576"
    using r by (intro signed_take_bit_int_eq_self) auto
  finally show ?thesis .
qed

lemma sint_freeMemory_wrap:
  "sint (freeMemory hw qs)
     = signed_take_bit 63 (sint (MemorySize hw) - sint (OverallMemoryUsage qs) * 1048576)"
  by (simp only: freeMemory_def sint_word_diff sint_used_bytes) simp

lemma sint_freeMemory:
  assumes "- 9223372036854775808 \<le> sint (MemorySize hw) - sint (OverallMemoryUsage qs) * 1048576"
    and "sint (MemorySize hw) - sint (OverallMemoryUsage qs) * 1048576 < 9223372036854775808"
  shows "sint (freeMemory hw qs) = sint (MemorySize hw) - sint (OverallMemoryUsage qs) * 1048576"
  unfolding sint_freeMemory_wrap using assms by (intro signed_take_bit_int_eq_self) auto

lemma sint_freeMemory_nonneg:
  assumes "0 \<le> sint (MemorySize hw)" and "0 \<le> sint (OverallMemoryUsage qs)"
  shows "sint (freeMemory hw qs) = sint (MemorySize hw) - sint (OverallMemoryUsage qs) * 1048576"
  using assms sint_64_range [of "MemorySize hw"] sint_32_range [of "OverallMemoryUsage qs"]
  by (intro sint_freeMemory) auto


lemma totalCPU_zero: "CpuMhz hw = 0 \<or> NumCpuCores hw = 0 \<Longrightarrow> totalCPU hw = 0"
  by (auto simp: totalCPU_def)

lemma fmt_d_negative: "i < 0 \<Longrightarrow> fmt_d i = ''-'' @ string_of_nat (nat (- i))"
  by (simp add: fmt_d_def)

text \<open>
  Claim C1, as amended. For every host, in mathematical integers: the total CPU is the
  clock speed times the core count and the free CPU is the total minus the used CPU,
  both exactly, for all values of the fields; the free memory is the total memory minus
  the used MiB times \<open>1024 * 1024\<close> exactly whenever that difference fits a signed
  64-bit integer, which it does whenever total and used memory are not negative. A zero
  clock speed or core count gives a total of 0 and the row is written all the same. The
  three derived values are written with the verb \<^verbatim>\<open>%d\<close>, which puts a minus sign
  before the digits of a negative value.
\<close>

theorem host_metrics:
  "sint (totalCPU hw) = sint (CpuMhz hw) * sint (NumCpuCores hw)
   \<and> sint (freeCPU hw qs) = sint (totalCPU hw) - sint (OverallCpuUsage qs)
   \<and> (- (2 ^ 63) \<le> sint (MemorySize hw) - sint (OverallMemoryUsage qs) * 1024 * 1024
        \<and> sint (MemorySize hw) - sint (OverallMemoryUsage qs) * 1024 * 1024 < 2 ^ 63
      \<longrightarrow> sint (freeMemory hw qs)
            = sint (MemorySize hw) - sint (OverallMemoryUsage qs) * 1024 * 1024)
   \<and> (0 \<le> sint (MemorySize hw) \<and> 0 \<le> sint (OverallMemoryUsage qs)
      \<longrightarrow> sint (freeMemory hw qs)
            = sint (MemorySize hw) - sint (OverallMemoryUsage qs) * 1024 * 1024)
   \<and> (CpuMhz hw = 0 \<or> NumCpuCores hw = 0 \<longrightarrow> totalCPU hw = 0)
   \<and> (Summary_Hardware hs = Some hw \<longrightarrow>
        host_loop bs [hs] = Some
          (Summary_Config_Name hs @ TAB
           @ fmt_d (sint (OverallCpuUsage (Summary_QuickStats hs))) @ TAB
           @ fmt_d (sint (totalCPU hw)) @ TAB
           @ fmt_d (sint (freeCPU hw (Summary_QuickStats hs))) @ TAB
           @ bs (scast (OverallMemoryUsage (Summary_QuickStats hs)) * 1024 * 1024) @ TAB
           @ bs (MemorySize hw) @ TAB
           @ fmt_d (sint (freeMemory hw (Summary_QuickStats hs))) @ TAB
           @ NL))
   \<and> (sint (freeCPU hw qs) < 0 \<longrightarrow>
        fmt_d (sint (freeCPU hw qs)) = ''-'' @ string_of_nat (nat (- sint (freeCPU hw qs))))
   \<and> (sint (freeMemory hw qs) < 0 \<longrightarrow>
        fmt_d (sint (freeMemory hw qs)) = ''-'' @ string_of_nat (nat (- sint (freeMemory hw qs))))"
proof (intro conjI impI)
  show "sint (totalCPU hw) = sint (CpuMhz hw) * sint (NumCpuCores hw)"
    by (rule sint_totalCPU)
  show "sint (freeCPU hw qs) = sint (totalCPU hw) - sint (OverallCpuUsage qs)"
    by (simp only: sint_freeCPU sint_totalCPU)
  show "sint (freeMemory hw qs) = sint (MemorySize hw) - sint (OverallMemoryUsage qs) * 1024 * 1024"
    if "- (2 ^ 63) \<le> sint (MemorySize hw) - sint (OverallMemoryUsage qs) * 1024 * 1024
        \<and> sint (MemorySize hw) - sint (OverallMemoryUsage qs) * 1024 * 1024 < 2 ^ 63"
    using that sint_freeMemory [of hw qs] by simp
  show "sint (freeMemory hw qs) = sint (MemorySize hw) - sint (OverallMemoryUsage qs) * 1024 * 1024"
    if "0 \<le> sint (MemorySize hw) \<and> 0 \<le> sint (OverallMemoryUsage qs)"
    using that sint_freeMemory_nonneg [of hw qs] by simp
  show "totalCPU hw = 0" if "CpuMhz hw = 0 \<or> NumCpuCores hw = 0"
    using that by (rule totalCPU_zero)
  show "host_loop bs [hs] = Some
          (Summary_Config_Name hs @ TAB
           @ fmt_d (sint (OverallCpuUsage (Summary_QuickStats hs))) @ TAB
           @ fmt_d (sint (totalCPU hw)) @ TAB
           @ fmt_d (sint (freeCPU hw (Summary_QuickStats hs))) @ TAB
           @ bs (scast (OverallMemoryUsage (Summary_QuickStats hs)) * 1024 * 1024) @ TAB
           @ bs (MemorySize hw) @ TAB
           @ fmt_d (sint (freeMemory hw (Summary_QuickStats hs))) @ TAB
           @ NL)"
    if "Summary_Hardware hs = Some hw"
    using that by (simp add: host_row_def)
  show "fmt_d (sint (freeCPU hw qs)) = ''-'' @ string_of_nat (nat (- sint (freeCPU hw qs)))"
    if "sint (freeCPU hw qs) < 0"
    using that by (rule fmt_d_negative)
  show "fmt_d (sint (freeMemory hw qs)) = ''-'' @ string_of_nat (nat (- sint (freeMemory hw qs)))"
    if "sint (freeMemory hw qs) < 0"
    using that by (rule fmt_d_negative)
qed



lemma string_of_nat_1000: "string_of_nat 1000 = ''1000''"
  by (simp add: string_of_nat.simps)


text \<open>
  The theorem at the over-subscribed host: total 4000, free CPU \<open>-1000\<close>, printed as
  such, free memory \<open>-4294967296\<close>; and with the core count set to 0.
\<close>

theorem host_metrics_witness:
  "sint (totalCPU oversubscribed_hw) = 4000
   \<and> sint (freeCPU oversubscribed_hw oversubscribed_qs) = - 1000
   \<and> sint (freeMemory oversubscribed_hw oversubscribed_qs) = - 4294967296
   \<and> fmt_d (sint (freeCPU oversubscribed_hw oversubscribed_qs)) = ''-1000''
   \<and> totalCPU (oversubscribed_hw\<lparr>NumCpuCores := 0\<rparr>) = 0
   \<and> host_loop (\<lambda>b. ''?'') [oversubscribed_hs] \<noteq> None"
proof -
  note h = host_metrics [of oversubscribed_hw oversubscribed_qs oversubscribed_hs "\<lambda>b. ''?''"]
  note z = host_metrics [of "oversubscribed_hw\<lparr>NumCpuCores := 0\<rparr>" oversubscribed_qs
      oversubscribed_hs "\<lambda>b. ''?''"]
  have t: "sint (totalCPU oversubscribed_hw) = 4000"
    using h by (simp add: oversubscribed_hw_def)
  have f: "sint (freeCPU oversubscribed_hw oversubscribed_qs) = - 1000"
    using h t by (simp add: oversubscribed_qs_def)
  have m: "sint (freeMemory oversubscribed_hw oversubscribed_qs) = - 4294967296"
    using h by (simp add: oversubscribed_hw_def oversubscribed_qs_def)
  have r: "fmt_d (sint (freeCPU oversubscribed_hw oversubscribed_qs)) = ''-1000''"
    using h f by (simp add: string_of_nat_1000)
  have c: "totalCPU (oversubscribed_hw\<lparr>NumCpuCores := 0\<rparr>) = 0"
    using z by simp
  have l: "host_loop (\<lambda>b. ''?'') [oversubscribed_hs] \<noteq> None"
    using h by (simp add: oversubscribed_hs_def)
  from t f m r c l show ?thesis by blast
qed

text \<open>
  Claim C1 as stated fails where the subtraction leaves the range of \<^verbatim>\<open>int64\<close>: with
  a memory size of \<open>- 2 ^ 63\<close> and 1 MiB in use, the computed free memory is not the
  difference of the two.
\<close>

theorem freeMemory_wraps_counterexample:
  "sint (freeMemory \<lparr>MemorySize = - 9223372036854775808, CpuMhz = 2000, NumCpuCores = 2\<rparr>
                    \<lparr>OverallCpuUsage = 0, OverallMemoryUsage = 1\<rparr>)
     \<noteq> sint (MemorySize \<lparr>MemorySize = - 9223372036854775808, CpuMhz = 2000, NumCpuCores = 2\<rparr>)
        - sint (OverallMemoryUsage \<lparr>OverallCpuUsage = 0, OverallMemoryUsage = 1\<rparr>) * 1024 * 1024"
  by (simp add: freeMemory_def)

section \<open>Runs of \<^verbatim>\<open>main\<close>\<close>

lemmas main_unfold = main_def main_hosts_def main_datastores_def main_vms_def emit_def
  return_deferred_def panic_deferred_def Let_def

lemma stops_main: "stops_at_failure (fst (main w))"
  by (auto simp: main_unfold split: option.splits sum.splits prod.splits)

lemma failed_returned: "e \<in> set (fst (main w)) \<Longrightarrow> failed e \<Longrightarrow> snd (main w) = Returned"
  by (auto simp: main_unfold split: option.splits sum.splits prod.splits if_splits)

lemma cleanup_not_failed: "is_cleanup x \<Longrightarrow> \<not> failed x"
  by (cases x) auto

lemma stops_at_failure_split:
  "stops_at_failure t \<Longrightarrow> t = pre @ e # post \<Longrightarrow> failed e \<Longrightarrow>
     (\<exists>d rest. post = Stdout d # rest \<and> d \<noteq> [] \<and> list_all is_cleanup rest)
     \<and> \<not> list_ex failed pre"
proof (induction pre arbitrary: t)
  case Nil
  then show ?case by (auto split: list.splits event.splits)
next
  case (Cons a pre)
  show ?case
  proof (cases "failed a")
    case True
    with Cons.prems obtain d rest where
      r: "pre @ e # post = Stdout d # rest" "list_all is_cleanup rest"
      by (auto split: list.splits event.splits)
    then have "e \<in> set (Stdout d # rest)" by (metis in_set_conv_decomp)
    with r \<open>failed e\<close> have False
      by (auto simp: list_all_iff dest: cleanup_not_failed)
    then show ?thesis ..
  next
    case False
    with Cons.prems have "stops_at_failure (pre @ e # post)" by simp
    from Cons.IH [OF this refl \<open>failed e\<close>] False show ?thesis by simp
  qed
qed

text \<open>
  Claim C5. Whenever a login, a view creation or a retrieval comes back with an error,
  what follows in the run is one print of a non-empty text to standard output and then
  only the deferred calls (releases of the views opened so far, and the cancel): no call
  is made again, no further kind is opened or fetched, no table is flushed, and
  \<^verbatim>\<open>main\<close> returns. No call had failed before it.
\<close>

theorem failure_stops_run:
  "fst (main w) = pre @ e # post \<Longrightarrow> failed e \<Longrightarrow>
     (\<exists>d rest. post = Stdout d # rest \<and> d \<noteq> [] \<and> list_all is_cleanup rest)
     \<and> \<not> list_ex failed pre
     \<and> snd (main w) = Returned"
proof -
  assume t: "fst (main w) = pre @ e # post" and f: "failed e"
  have "e \<in> set (fst (main w))" by (simp add: t)
  then have "snd (main w) = Returned" using f by (rule failed_returned)
  with stops_at_failure_split [OF stops_main t f] show ?thesis by simp
qed


lemma esx01_hardware: "Summary_Hardware esx01 = Some esx01_hw"
  by (simp add: esx01_def)

lemma retrieval_fails_trace:
  "main retrieval_fails =
    ([Stdout (''DEBUG: vc is vc'' @ NL), Stdout (''DEBUG: user is root'' @ NL),
      Stdout (''DEBUG: password is pw'' @ NL),
      Login \<lparr>URL = \<lparr>raw = ''vc'', User = Some (''root'', ''pw'')\<rparr>, Insecure = True\<rparr> None,
      Stdout (''Log in successful'' @ NL),
      CreateContainerView KHostSystem None, Retrieve KHostSystem None,
      Stdout (NL @ ''*** Host Information ***'' @ NL),
      Stdout (''------------------------'' @ NL @ NL),
      Flush (host_header @ host_row ByteSize_String_spec esx01 esx01_hw),
      CreateContainerView KDatastore None]
     @ Retrieve KDatastore (Some ''denied'')
     # [Stdout ''Unable to retrieve Datastore information: error denied'',
        Destroy KDatastore, Destroy KHostSystem, Cancel], Returned)"
  by (simp add: main_unfold retrieval_fails_def reference_world_def esx01_hardware)


text \<open>The theorem at the run whose datastore retrieval is denied.\<close>

theorem failure_stops_run_witness:
  "fst (main retrieval_fails) =
     [Stdout (''DEBUG: vc is vc'' @ NL), Stdout (''DEBUG: user is root'' @ NL),
      Stdout (''DEBUG: password is pw'' @ NL),
      Login \<lparr>URL = \<lparr>raw = ''vc'', User = Some (''root'', ''pw'')\<rparr>, Insecure = True\<rparr> None,
      Stdout (''Log in successful'' @ NL),
      CreateContainerView KHostSystem None, Retrieve KHostSystem None,
      Stdout (NL @ ''*** Host Information ***'' @ NL),
      Stdout (''------------------------'' @ NL @ NL),
      Flush (host_header @ host_row ByteSize_String_spec esx01 esx01_hw),
      CreateContainerView KDatastore None]
     @ Retrieve KDatastore (Some ''denied'')
     # [Stdout ''Unable to retrieve Datastore information: error denied'',
        Destroy KDatastore, Destroy KHostSystem, Cancel]
   \<and> failed (Retrieve KDatastore (Some ''denied''))
   \<and> list_all is_cleanup [Destroy KDatastore, Destroy KHostSystem, Cancel]
   \<and> snd (main retrieval_fails) = Returned"
proof -
  have t: "fst (main retrieval_fails) =
     [Stdout (''DEBUG: vc is vc'' @ NL), Stdout (''DEBUG: user is root'' @ NL),
      Stdout (''DEBUG: password is pw'' @ NL),
      Login \<lparr>URL = \<lparr>raw = ''vc'', User = Some (''root'', ''pw'')\<rparr>, Insecure = True\<rparr> None,
      Stdout (''Log in successful'' @ NL),
      CreateContainerView KHostSystem None, Retrieve KHostSystem None,
      Stdout (NL @ ''*** Host Information ***'' @ NL),
      Stdout (''------------------------'' @ NL @ NL),
      Flush (host_header @ host_row ByteSize_String_spec esx01 esx01_hw),
      CreateContainerView KDatastore None]
     @ Retrieve KDatastore (Some ''denied'')
     # [Stdout ''Unable to retrieve Datastore information: error denied'',
        Destroy KDatastore, Destroy KHostSystem, Cancel]"
    by (simp only: retrieval_fails_trace fst_conv)
  have f: "failed (Retrieve KDatastore (Some ''denied''))" by simp
  from failure_stops_run [OF t f] t f show ?thesis by simp
qed

text \<open>
  Claim C7. When \<^verbatim>\<open>soap.ParseURL\<close> gives no URL (as for a missing endpoint URL) or
  an error (an unparseable one), the run is the three debug lines, one or two diagnostic
  lines and the deferred cancel: it ends before any login, any view and any table. With
  an error \<^verbatim>\<open>main\<close> returns; with a nil URL and no error it ends by the panic of
  line 105.
\<close>

theorem no_url_no_login:
  "fst (ParseURL w (GOVMOMI_URL w)) = None \<or> snd (ParseURL w (GOVMOMI_URL w)) \<noteq> None \<Longrightarrow>
     fst (main w) =
       [Stdout (''DEBUG: vc is '' @ GOVMOMI_URL w @ NL),
        Stdout (''DEBUG: user is '' @ GOVMOMI_USERNAME w @ NL),
        Stdout (''DEBUG: password is '' @ GOVMOMI_PASSWORD w @ NL)]
       @ (if fst (ParseURL w (GOVMOMI_URL w)) = None
          then [Stdout (''could not parse URL (environment variables set?)'' @ NL)] else [])
       @ (case snd (ParseURL w (GOVMOMI_URL w)) of
            Some e \<Rightarrow> [Stdout (''URL parsing not successful, error %v '' @ e @ NL)]
          | None \<Rightarrow> [])
       @ [Cancel]
     \<and> snd (main w) = (if snd (ParseURL w (GOVMOMI_URL w)) = None then Panicked else Returned)
     \<and> (\<forall>s r. Login s r \<notin> set (fst (main w)))
     \<and> (\<forall>k r. CreateContainerView k r \<notin> set (fst (main w)))
     \<and> (\<forall>b. Flush b \<notin> set (fst (main w)))
     \<and> 5 \<le> length (fst (main w))"
  by (auto simp: main_def emit_def return_deferred_def panic_deferred_def Let_def
      split: option.splits prod.splits)


text \<open>The theorem at the run with no endpoint URL set.\<close>

theorem no_url_no_login_witness:
  "fst (ParseURL no_url (GOVMOMI_URL no_url)) = None
   \<and> main no_url =
       ([Stdout (''DEBUG: vc is '' @ NL), Stdout (''DEBUG: user is root'' @ NL),
         Stdout (''DEBUG: password is pw'' @ NL),
         Stdout (''could not parse URL (environment variables set?)'' @ NL),
         Cancel], Panicked)"
proof -
  have p: "ParseURL no_url (GOVMOMI_URL no_url) = (None, None)"
    by (simp add: no_url_def reference_world_def)
  have v: "GOVMOMI_URL no_url = []" "GOVMOMI_USERNAME no_url = ''root''"
    "GOVMOMI_PASSWORD no_url = ''pw''"
    by (simp_all add: no_url_def reference_world_def)
  from no_url_no_login [of no_url] p
  have "fst (main no_url) = [Stdout (''DEBUG: vc is '' @ NL), Stdout (''DEBUG: user is root'' @ NL),
         Stdout (''DEBUG: password is pw'' @ NL),
         Stdout (''could not parse URL (environment variables set?)'' @ NL),
         Cancel] \<and> snd (main no_url) = Panicked"
    by (simp add: v)
  with p show ?thesis by (simp add: prod_eq_iff)
qed

text \<open>
  Claim C10. Every session a run logs in with has \<^verbatim>\<open>Insecure\<close> set, whatever the
  environment variables and the endpoint's answers are.
\<close>

theorem login_insecure: "Login s r \<in> set (fst (main w)) \<Longrightarrow> Insecure s"
  by (auto simp: main_unfold split: option.splits sum.splits prod.splits if_splits)

lemma datastore1_rows: "datastore_loop bs [datastore1] = datastore_row bs datastore1"
  by simp

lemma reference_trace:
  "main reference_world =
    ([Stdout (''DEBUG: vc is vc'' @ NL), Stdout (''DEBUG: user is root'' @ NL),
      Stdout (''DEBUG: password is pw'' @ NL),
      Login reference_session None,
      Stdout (''Log in successful'' @ NL),
      CreateContainerView KHostSystem None, Retrieve KHostSystem None,
      Stdout (NL @ ''*** Host Information ***'' @ NL),
      Stdout (''------------------------'' @ NL @ NL),
      Flush (host_header @ host_row ByteSize_String_spec esx01 esx01_hw),
      CreateContainerView KDatastore None, Retrieve KDatastore None,
      Stdout (NL @ ''*** Datastore Information ***'' @ NL),
      Stdout (''------------------------------'' @ NL @ NL),
      Flush (datastore_header @ datastore_row ByteSize_String_spec datastore1),
      CreateContainerView KVirtualMachine None, Retrieve KVirtualMachine None,
      Stdout (NL @ ''*** VM Information ***'' @ NL),
      Stdout (''-----------------------'' @ NL @ NL),
      Flush (vm_header @ vm_row vm1 @ NL),
      Destroy KVirtualMachine, Destroy KDatastore, Destroy KHostSystem, Cancel], Returned)"
  by (simp add: main_unfold reference_world_def reference_session_def esx01_hardware)

text \<open>The theorem at the reference run and its session.\<close>

theorem login_insecure_witness:
  "Login reference_session None \<in> set (fst (main reference_world)) \<and> Insecure reference_session"
proof -
  have m: "Login reference_session None \<in> set (fst (main reference_world))"
    by (simp add: reference_trace)
  from login_insecure [OF m] have i: "Insecure reference_session" .
  from m i show ?thesis by (rule conjI)
qed


lemma scope_released_main: "scope_released k False (fst (main w))"
  by (cases k) (auto simp: main_unfold split: option.splits sum.splits prod.splits)

lemma destroy_count:
  "count_list (fst (main w)) (Destroy k) = count_list (fst (main w)) (CreateContainerView k None)
   \<and> count_list (fst (main w)) (CreateContainerView k None) \<le> 1"
  by (cases k) (auto simp: main_unfold split: option.splits sum.splits prod.splits)

lemma retrieve_failed_destroy:
  "Retrieve k (Some e) \<in> set (fst (main w)) \<Longrightarrow> count_list (fst (main w)) (Destroy k) = 1"
  by (cases k) (auto simp: main_unfold split: option.splits sum.splits prod.splits if_splits)

text \<open>
  Claim C3. In every run and for every kind: the scope is opened at most once, it is
  released as many times as it was opened, never while closed and never left open when
  the run ends, whether \<^verbatim>\<open>main\<close> returns or panics; and when the kind's retrieval
  fails, its scope is released exactly once.
\<close>

theorem scope_released_once:
  "scope_released k False (fst (main w))
   \<and> count_list (fst (main w)) (Destroy k) = count_list (fst (main w)) (CreateContainerView k None)
   \<and> count_list (fst (main w)) (CreateContainerView k None) \<le> 1
   \<and> (Retrieve k (Some e) \<in> set (fst (main w)) \<longrightarrow> count_list (fst (main w)) (Destroy k) = 1)"
  using scope_released_main [of k w] destroy_count [of w k] retrieve_failed_destroy [of k e w]
  by blast

text \<open>
  The theorem at the run whose datastore retrieval is denied: the datastore scope and the
  host scope are each released once, the scope of the virtual machines was never opened.
\<close>

theorem scope_released_once_witness:
  "Retrieve KDatastore (Some ''denied'') \<in> set (fst (main retrieval_fails))
   \<and> count_list (fst (main retrieval_fails)) (Destroy KDatastore) = 1
   \<and> count_list (fst (main retrieval_fails)) (Destroy KHostSystem) = 1
   \<and> count_list (fst (main retrieval_fails)) (Destroy KVirtualMachine) = 0"
proof -
  have r: "Retrieve KDatastore (Some ''denied'') \<in> set (fst (main retrieval_fails))"
    by (simp add: retrieval_fails_trace)
  have d: "count_list (fst (main retrieval_fails)) (Destroy KDatastore) = 1"
    using scope_released_once [of KDatastore retrieval_fails "''denied''"] r by blast
  have h: "count_list (fst (main retrieval_fails)) (Destroy KHostSystem) = 1"
    using scope_released_once [of KHostSystem retrieval_fails "''denied''"]
    by (simp add: retrieval_fails_trace)
  have v: "count_list (fst (main retrieval_fails)) (Destroy KVirtualMachine) = 0"
    using scope_released_once [of KVirtualMachine retrieval_fails "''denied''"]
    by (simp add: retrieval_fails_trace)
  from r d h v show ?thesis by blast
qed









end
